theory Spec2Isabelle
  imports Complex_Main
begin

section \<open>The virtual roaster driver\<close>

text \<open>
  A shallow embedding of \<^verbatim>\<open>src/drivers/virtual_driver/index.ts\<close> and
  \<^verbatim>\<open>src/drivers/common/abstractDriver.ts\<close>.

  Conventions of the embedding.
  \<^item> A JavaScript number held in the state is an exact rational (\<^typ>\<open>rat\<close>), the value
    of a finite double; counters are \<^typ>\<open>int\<close>. An infinity stored in a field is not
    modelled. The two subtractions of \<^verbatim>\<open>shouldRetryCommand\<close> are rounded to the nearest
    double, as the source computes them, and may overflow to an infinity. The other
    arithmetic is exact: on the values that occur in the scenarios below (multiples of
    one half, \<open>10 * 0.95\<close>) doubles give the same results.
  \<^item> An optional field (\<^verbatim>\<open>targetValue?\<close>, \<^verbatim>\<open>previousValue?\<close>) is an option. Read
    through \<^verbatim>\<open>!\<close> an absent field is \<^verbatim>\<open>undefined\<close>; arithmetic on it gives NaN, and
    every comparison with NaN is false. \<open>None\<close> stands for both.
  \<^item> The dictionaries \<^verbatim>\<open>byId\<close> are maps from strings. Reading a property of a missing
    entry raises a TypeError; the driver state at the moment of the throw is kept, since
    writes made before it persist.
  \<^item> The closure of \<^verbatim>\<open>virtualDriver\<close> (the state proxy, \<^verbatim>\<open>updateCycleId\<close>) together
    with the console and the pending timers of the event loop is the record \<open>Driver\<close>.
    Every function takes the driver and returns it updated.
  \<^item> \<^verbatim>\<open>Math.random()\<close> and \<^verbatim>\<open>getRandomArbitrary(0, 1000)\<close> (module
    \<^verbatim>\<open>utils/math\<close>, which is not part of the sources) are parameters: the drawn values.
\<close>

subsection \<open>Data model (\<^verbatim>\<open>driver_types/index.ts\<close>)\<close>

record IParams =
  connectionRejectionPercentage :: rat
  disconnectionOnUpdatePercentage :: rat
  samplingFrequency :: rat
  maxReconnectionAttempts :: int
  commandRetryLimited :: bool
  maxNumberOfRetries :: int
  retryFrequency :: int

text \<open>Field \<open>val\<close> is the source's \<^verbatim>\<open>value\<close>, field \<open>type_m\<close> its \<^verbatim>\<open>type\<close>.\<close>

record IMeasure =
  val :: rat
  type_m :: string
  hasTarget :: bool
  targetValue :: "rat option"
  previousValue :: "rat option"

text \<open>Fields \<open>lastVerb\<close>, \<open>lastTarget\<close> are \<^verbatim>\<open>lastCommand.verb\<close>, \<^verbatim>\<open>lastCommand.target\<close>.\<close>

record LastCommand =
  lastVerb :: "string option"
  lastTarget :: "rat option"

text \<open>
  The field \<^verbatim>\<open>command: Function\<close> of a command holds a callable. The only callable the
  source ever stores there is \<^verbatim>\<open>changeBurnerLevel\<close>; the field holds its name.
\<close>

datatype Behaviour = ChangeBurnerLevel

text \<open>Fields \<open>command_fn\<close>, \<open>min_c\<close>, \<open>max_c\<close> are the source's \<^verbatim>\<open>command\<close>, \<^verbatim>\<open>min\<close>, \<^verbatim>\<open>max\<close>.\<close>

record ICommand =
  linkedMeasure :: string
  command_fn :: Behaviour
  min_c :: rat
  max_c :: rat
  issuingCommand :: bool
  lastCommand :: LastCommand
  frequencyCycleCounter :: int
  retriesCounter :: int
  supportedVerbs :: "string list"

record IState =
  measures_byId :: "string \<rightharpoonup> IMeasure"
  measures_byName :: "string list"
  commands_byId :: "string \<rightharpoonup> ICommand"
  commands_byName :: "string list"
  connected :: bool
  failedConnections :: int

subsection \<open>IEEE doubles\<close>

text \<open>
  The result of an arithmetic operation of JavaScript: a finite double (given by its
  exact value), an infinity or NaN.
\<close>

datatype jsnumber = Finite rat | PosInfinity | NegInfinity | NaN

definition pow2 :: "int \<Rightarrow> rat" where
  "pow2 e = (if 0 \<le> e then 2 ^ nat e else 1 / 2 ^ nat (- e))"

text \<open>
  The exponent of a positive number \<open>x\<close> as a double: the \<open>e\<close> with
  \<open>2 ^ e \<le> x < 2 ^ (e + 1)\<close>, kept within \<open>- 1022\<close> (below it the doubles are subnormal)
  and \<open>1023\<close>. The search walks up from the exponent 0 when \<open>1 \<le> x\<close> and down from
  \<open>- 1\<close> otherwise, at most to the bound.
\<close>

fun exponent_up :: "nat \<Rightarrow> int \<Rightarrow> rat \<Rightarrow> int" where
  "exponent_up fuel e x =
     (if fuel = 0 \<or> x < pow2 (e + 1) then e else exponent_up (fuel - 1) (e + 1) x)"

fun exponent_down :: "nat \<Rightarrow> int \<Rightarrow> rat \<Rightarrow> int" where
  "exponent_down fuel e x =
     (if fuel = 0 \<or> pow2 e \<le> x then e else exponent_down (fuel - 1) (e - 1) x)"

declare exponent_up.simps [simp del] exponent_down.simps [simp del]

definition double_exponent :: "rat \<Rightarrow> int" where
  "double_exponent x =
     (if 1 \<le> x then exponent_up 1023 0 x else exponent_down 1021 (- 1) x)"

definition round_half_even :: "rat \<Rightarrow> int" where
  "round_half_even r =
     (let f = \<lfloor>r\<rfloor>; d = r - of_int f
      in if d < 1 / 2 then f else if 1 / 2 < d then f + 1
         else if even f then f else f + 1)"

text \<open>
  Rounding to the nearest double, ties to the even significand: the significand has 53
  bits, so the doubles around \<open>x\<close> are the multiples of \<open>2 ^ (e - 52)\<close>. A result of
  magnitude \<open>2 ^ 1024\<close> is an infinity.
\<close>

definition to_double :: "rat \<Rightarrow> jsnumber" where
  "to_double x =
     (if x = 0 then Finite 0
      else let q = pow2 (double_exponent \<bar>x\<bar> - 52);
               y = of_int (round_half_even (\<bar>x\<bar> / q)) * q
           in if pow2 1024 \<le> y then (if 0 < x then PosInfinity else NegInfinity)
              else Finite (if 0 < x then y else - y))"

text \<open>
  \<^verbatim>\<open>a - b\<close> on two numbers of the state, \<^verbatim>\<open>Math.abs\<close> and \<^verbatim>\<open>>=\<close> on results. An absent
  operand gives NaN, and a comparison with NaN is false.
\<close>

fun double_minus :: "rat option \<Rightarrow> rat option \<Rightarrow> jsnumber" where
  "double_minus (Some a) (Some b) = to_double (a - b)"
| "double_minus a b = NaN"

fun double_abs :: "jsnumber \<Rightarrow> jsnumber" where
  "double_abs (Finite x) = Finite \<bar>x\<bar>"
| "double_abs PosInfinity = PosInfinity"
| "double_abs NegInfinity = PosInfinity"
| "double_abs NaN = NaN"

fun double_ge :: "jsnumber \<Rightarrow> jsnumber \<Rightarrow> bool" where
  "double_ge NaN b = False"
| "double_ge a NaN = False"
| "double_ge (Finite x) (Finite y) = (x \<ge> y)"
| "double_ge PosInfinity b = True"
| "double_ge a NegInfinity = True"
| "double_ge a b = False"

subsection \<open>Console, errors, the driver closure\<close>

text \<open>One constructor for each \<^verbatim>\<open>console.log\<close> call of the two source files.\<close>

datatype LogEntry =
    LogConnecting int
  | LogSuccessfullyConnected
  | LogFailedToConnect
  | LogSucceededToCreateConnection
  | LogIssuingCommand string string rat
  | LogChangingTarget
  | LogNotImplemented "string option" "rat option"
  | LogChangingBurnerLevelTo "rat option"
  | LogStopCommand
  | LogUpdatingMeasures
  | LogUpdated string rat
  | LogRetryDecision bool bool bool jsnumber jsnumber

datatype error = TypeError | Error string

record Driver =
  state :: IState
  console :: "LogEntry list"
  updateCycleId :: "nat option"
  intervals :: "(nat \<times> rat) list"
  reconnectTimeouts :: "nat list"
  nextTimerId :: nat

text \<open>
  \<open>intervals\<close> are the active \<^verbatim>\<open>setInterval\<close> timers (identifier and period),
  \<open>reconnectTimeouts\<close> the pending \<^verbatim>\<open>setTimeout(connect, 1000)\<close> timers.
\<close>

datatype outcome = Returned Driver | Threw error Driver

fun outcome_driver :: "outcome \<Rightarrow> Driver" where
  "outcome_driver (Returned d) = d"
| "outcome_driver (Threw e d) = d"

definition console_log :: "LogEntry \<Rightarrow> Driver \<Rightarrow> Driver" where
  "console_log e d = d\<lparr>console := console d @ [e]\<rparr>"

definition set_measure :: "string \<Rightarrow> IMeasure \<Rightarrow> Driver \<Rightarrow> Driver" where
  "set_measure key m d =
     d\<lparr>state := (state d)\<lparr>measures_byId := (measures_byId (state d))(key \<mapsto> m)\<rparr>\<rparr>"

definition set_command :: "string \<Rightarrow> ICommand \<Rightarrow> Driver \<Rightarrow> Driver" where
  "set_command key c d =
     d\<lparr>state := (state d)\<lparr>commands_byId := (commands_byId (state d))(key \<mapsto> c)\<rparr>\<rparr>"

subsection \<open>The initial state and the default parameters\<close>

definition initialState :: IState where
  "initialState =
     \<lparr>measures_byId =
        [''beanTemperature'' \<mapsto>
           \<lparr>val = 0, type_m = ''temperature'', hasTarget = False,
            targetValue = None, previousValue = None\<rparr>,
         ''airTemperature'' \<mapsto>
           \<lparr>val = 0, type_m = ''temperature'', hasTarget = False,
            targetValue = None, previousValue = None\<rparr>,
         ''burnerLevel'' \<mapsto>
           \<lparr>val = 0, type_m = ''percentage'', hasTarget = True,
            targetValue = Some 0, previousValue = Some 0\<rparr>],
      measures_byName = [''beanTemperature'', ''airTemperature'', ''burnerLevel''],
      commands_byId =
        [''burnerLevel'' \<mapsto>
           \<lparr>linkedMeasure = ''burnerLevel'', command_fn = ChangeBurnerLevel,
            min_c = 0, max_c = 100, issuingCommand = False,
            lastCommand = \<lparr>lastVerb = None, lastTarget = None\<rparr>,
            frequencyCycleCounter = 0, retriesCounter = 0,
            supportedVerbs = [''set_to'', ''take_control'', ''increase'', ''decrease'']\<rparr>],
      commands_byName = [''burnerLevel''],
      connected = False,
      failedConnections = 0\<rparr>"

definition defaultParams :: IParams where
  "defaultParams =
     \<lparr>connectionRejectionPercentage = 50,
      disconnectionOnUpdatePercentage = 1,
      samplingFrequency = 1000,
      maxReconnectionAttempts = 0,
      commandRetryLimited = True,
      maxNumberOfRetries = 10,
      retryFrequency = 1\<rparr>"

definition initialDriver :: Driver where
  "initialDriver =
     \<lparr>state = initialState, console = [], updateCycleId = None, intervals = [],
      reconnectTimeouts = [], nextTimerId = 1\<rparr>"

subsection \<open>\<^verbatim>\<open>shouldRetryCommand\<close> (\<^verbatim>\<open>common/abstractDriver.ts\<close>)\<close>

text \<open>
  The function returns its result together with the object it prints, whose fields are
  its five locals \<^verbatim>\<open>requestedTargetChange\<close>, \<^verbatim>\<open>progressionNotObserved\<close>,
  \<^verbatim>\<open>canRetryCommand\<close>, \<^verbatim>\<open>currentDistance\<close>, \<^verbatim>\<open>previousDistance\<close>.
\<close>

definition shouldRetryCommand ::
  "string \<Rightarrow> IState \<Rightarrow> IParams \<Rightarrow> error + (bool \<times> LogEntry)" where
  "shouldRetryCommand commandKey s params =
     (case commands_byId s commandKey of
        None \<Rightarrow> Inl TypeError
      | Some c \<Rightarrow>
          (case measures_byId s commandKey of
             None \<Rightarrow> Inl TypeError
           | Some m \<Rightarrow>
               let requestedTargetChange = issuingCommand c;
                   currentDistance = double_minus (Some (val m)) (targetValue m);
                   previousDistance = double_minus (previousValue m) (targetValue m);
                   progressionNotObserved =
                     double_ge (double_abs currentDistance) (double_abs previousDistance);
                   canRetryCommand =
                     ((commandRetryLimited params \<and>
                       retriesCounter c \<le> maxNumberOfRetries params) \<or>
                      \<not> commandRetryLimited params)
               in Inr (requestedTargetChange \<and> progressionNotObserved \<and> canRetryCommand,
                       LogRetryDecision requestedTargetChange progressionNotObserved
                         canRetryCommand currentDistance previousDistance)))"

subsection \<open>Commands (\<^verbatim>\<open>virtual_driver/index.ts\<close>)\<close>

text \<open>Exact arithmetic and comparisons on numbers that may be absent or NaN.\<close>

fun js_minus :: "rat option \<Rightarrow> rat option \<Rightarrow> rat option" where
  "js_minus (Some a) (Some b) = Some (a - b)"
| "js_minus a b = None"

fun js_plus :: "rat option \<Rightarrow> rat option \<Rightarrow> rat option" where
  "js_plus (Some a) (Some b) = Some (a + b)"
| "js_plus a b = None"



fun js_le :: "rat option \<Rightarrow> rat option \<Rightarrow> bool" where
  "js_le (Some a) (Some b) = (a \<le> b)"
| "js_le a b = False"

fun js_abs :: "rat option \<Rightarrow> rat option" where
  "js_abs (Some a) = Some \<bar>a\<bar>"
| "js_abs None = None"

definition changeBurnerLevelTo :: "rat option \<Rightarrow> Driver \<Rightarrow> outcome" where
  "changeBurnerLevelTo target d =
     (case measures_byId (state d) ''burnerLevel'' of
        None \<Rightarrow> Threw TypeError d
      | Some m \<Rightarrow> Returned (set_measure ''burnerLevel'' (m\<lparr>targetValue := target\<rparr>) d))"

text \<open>
  The parameters are options: \<^verbatim>\<open>retryCommand\<close> calls the function with no argument,
  and both are \<^verbatim>\<open>undefined\<close> then.
\<close>

definition changeBurnerLevel :: "string option \<Rightarrow> rat option \<Rightarrow> Driver \<Rightarrow> outcome" where
  "changeBurnerLevel verb target d =
     (if verb = Some ''set_to'' then
        changeBurnerLevelTo target (console_log LogChangingTarget d)
      else if verb = Some ''increase'' then
        (case measures_byId (state d) ''burnerLevel'' of
           None \<Rightarrow> Threw TypeError d
         | Some m \<Rightarrow> changeBurnerLevelTo (js_plus (Some (val m)) target) d)
      else Returned (console_log (LogNotImplemented verb target) d))"

fun invoke :: "Behaviour \<Rightarrow> string option \<Rightarrow> rat option \<Rightarrow> Driver \<Rightarrow> outcome" where
  "invoke ChangeBurnerLevel verb target d = changeBurnerLevel verb target d"

definition command :: "string \<Rightarrow> string \<Rightarrow> rat \<Rightarrow> Driver \<Rightarrow> outcome" where
  "command control verb target d0 =
     (let d = console_log (LogIssuingCommand control verb target) d0 in
      case commands_byId (state d) control of
        None \<Rightarrow> Threw TypeError d
      | Some c \<Rightarrow>
          let d1 = set_command control
                     (c\<lparr>issuingCommand := True,
                        lastCommand := (lastCommand c)\<lparr>lastVerb := Some verb,
                                                        lastTarget := Some target\<rparr>\<rparr>) d
          in (case measures_byId (state d1) control of
                None \<Rightarrow> Threw TypeError d1
              | Some m \<Rightarrow>
                  let d2 = set_measure control
                             (m\<lparr>previousValue := Some (val m),
                                targetValue := Some target\<rparr>) d1
                  in invoke (command_fn c) (Some verb) (Some target) d2))"





definition retryCommand :: "string \<Rightarrow> Driver \<Rightarrow> outcome" where
  "retryCommand commandKey d =
     (case commands_byId (state d) commandKey of
        None \<Rightarrow> Threw TypeError d
      | Some c \<Rightarrow>
          (case invoke (command_fn c) None None d of
             Threw e d' \<Rightarrow> Threw e d'
           | Returned d1 \<Rightarrow>
               (case commands_byId (state d1) commandKey of
                  None \<Rightarrow> Threw TypeError d1
                | Some c1 \<Rightarrow>
                    let d2 = set_command commandKey
                               (c1\<lparr>retriesCounter := retriesCounter c1 + 1\<rparr>) d1
                    in (case measures_byId (state d2) commandKey of
                          None \<Rightarrow> Threw TypeError d2
                        | Some m \<Rightarrow>
                            Returned (set_measure commandKey
                                        (m\<lparr>previousValue := Some (val m)\<rparr>) d2)))))"

text \<open>
  \<^verbatim>\<open>checkCommand\<close>. The second test reads the measure first and, by the short circuit
  of \<^verbatim>\<open>&&\<close>, the command only when the distance is within the tolerance.
\<close>

definition checkCommand :: "IParams \<Rightarrow> string \<Rightarrow> Driver \<Rightarrow> outcome" where
  "checkCommand params commandKey d =
     (case shouldRetryCommand commandKey (state d) params of
        Inl e \<Rightarrow> Threw e d
      | Inr (retry, line) \<Rightarrow>
          (case (if retry then retryCommand commandKey (console_log line d)
                 else Returned (console_log line d)) of
             Threw e d' \<Rightarrow> Threw e d'
           | Returned d1 \<Rightarrow>
               (case measures_byId (state d1) commandKey of
                  None \<Rightarrow> Threw TypeError d1
                | Some m \<Rightarrow>
                    if js_le (js_abs (js_minus (Some (val m)) (targetValue m)))
                             (Some (0.01 * val m))
                    then (case commands_byId (state d1) commandKey of
                            None \<Rightarrow> Threw TypeError d1
                          | Some c \<Rightarrow>
                              if issuingCommand c
                              then Returned (set_command commandKey
                                               (c\<lparr>issuingCommand := False\<rparr>)
                                               (console_log LogStopCommand d1))
                              else Returned d1)
                    else Returned d1)))"

subsection \<open>Connection and the update cycle\<close>

text \<open>\<open>randomNumber\<close> is the value \<^verbatim>\<open>Math.random()\<close> returns, in \<open>[0, 1)\<close>.\<close>

definition createConnection :: "rat \<Rightarrow> rat \<Rightarrow> Driver \<Rightarrow> outcome" where
  "createConnection randomNumber rejectionPercentage d =
     (if randomNumber < rejectionPercentage then Threw (Error ''Random rejection'') d
      else Returned (console_log LogSucceededToCreateConnection d))"

definition startUpdateCycle :: "rat \<Rightarrow> Driver \<Rightarrow> Driver" where
  "startUpdateCycle frequency d =
     d\<lparr>updateCycleId := Some (nextTimerId d),
       intervals := intervals d @ [(nextTimerId d, frequency)],
       nextTimerId := Suc (nextTimerId d)\<rparr>"

definition connect :: "IParams \<Rightarrow> rat \<Rightarrow> Driver \<Rightarrow> Driver" where
  "connect params randomNumber d0 =
     (let d = console_log (LogConnecting (failedConnections (state d0) + 1)) d0 in
      case createConnection randomNumber
             (connectionRejectionPercentage params / 100) d of
        Returned d1 \<Rightarrow>
          let d2 = d1\<lparr>state := (state d1)\<lparr>failedConnections := 0\<rparr>\<rparr>;
              d3 = d2\<lparr>state := (state d2)\<lparr>connected := True\<rparr>\<rparr>;
              d4 = startUpdateCycle (samplingFrequency params) d3
          in console_log LogSuccessfullyConnected d4
      | Threw e d1 \<Rightarrow>
          let d2 = console_log LogFailedToConnect d1;
              d3 = d2\<lparr>state := (state d2)\<lparr>failedConnections :=
                                              failedConnections (state d2) + 1\<rparr>\<rparr>;
              d4 = d3\<lparr>state := (state d3)\<lparr>connected := False\<rparr>\<rparr>
          in if maxReconnectionAttempts params = 0 \<or>
                maxReconnectionAttempts params > failedConnections (state d4)
             then d4\<lparr>reconnectTimeouts := reconnectTimeouts d4 @ [nextTimerId d4],
                     nextTimerId := Suc (nextTimerId d4)\<rparr>
             else d4)"

text \<open>\<^verbatim>\<open>clearInterval(undefined)\<close> and clearing a timer that is no longer active do nothing.\<close>

definition clearInterval :: "nat option \<Rightarrow> Driver \<Rightarrow> Driver" where
  "clearInterval tid d =
     (case tid of
        None \<Rightarrow> d
      | Some i \<Rightarrow> d\<lparr>intervals := filter (\<lambda>(j, f). j \<noteq> i) (intervals d)\<rparr>)"

definition disconnect :: "Driver \<Rightarrow> Driver" where
  "disconnect d =
     clearInterval (updateCycleId d) (d\<lparr>state := (state d)\<lparr>connected := False\<rparr>\<rparr>)"

text \<open>
  The callback \<^verbatim>\<open>startUpdateCycle\<close> hands to \<^verbatim>\<open>setInterval\<close>: one sampling tick.
  \<open>getNewMeasure i\<close> is the value the \<open>i\<close>-th call of \<^verbatim>\<open>getNewMeasure()\<close> in this tick
  returns. Both loops run \<^verbatim>\<open>async\<close> callbacks whose promises nobody awaits: a TypeError
  in a callback ends that callback only. The callbacks of the second loop are run one
  after the other, which is the order of the source when the driver has one command.
\<close>

fun updateMeasures :: "(nat \<Rightarrow> rat) \<Rightarrow> nat \<Rightarrow> string list \<Rightarrow> Driver \<Rightarrow> Driver" where
  "updateMeasures getNewMeasure i [] d = d"
| "updateMeasures getNewMeasure i (key # keys) d =
     (case measures_byId (state d) key of
        None \<Rightarrow> updateMeasures getNewMeasure i keys d
      | Some m \<Rightarrow>
          if \<not> hasTarget m
          then updateMeasures getNewMeasure (Suc i) keys
                 (console_log (LogUpdated key (getNewMeasure i))
                    (set_measure key (m\<lparr>val := getNewMeasure i\<rparr>) d))
          else updateMeasures getNewMeasure i keys d)"

fun checkCommands :: "IParams \<Rightarrow> string list \<Rightarrow> Driver \<Rightarrow> Driver" where
  "checkCommands params [] d = d"
| "checkCommands params (key # keys) d =
     (case checkCommand params key d of
        Threw e d1 \<Rightarrow> checkCommands params keys d1
      | Returned d1 \<Rightarrow>
          (case measures_byId (state d1) key of
             None \<Rightarrow> checkCommands params keys d1
           | Some m \<Rightarrow>
               checkCommands params keys
                 (set_measure key (m\<lparr>previousValue := Some (val m)\<rparr>) d1)))"

definition tick :: "IParams \<Rightarrow> (nat \<Rightarrow> rat) \<Rightarrow> Driver \<Rightarrow> Driver" where
  "tick params getNewMeasure d0 =
     (let d = console_log LogUpdatingMeasures d0;
          d1 = updateMeasures getNewMeasure 0 (measures_byName (state d)) d
      in checkCommands params (commands_byName (state d1)) d1)"

subsection \<open>Runs of the driver\<close>

text \<open>
  The operations of a driver instance: the three functions it exports, a sampling tick,
  and the two internal functions a tick reaches. \<^verbatim>\<open>moveBurnerLevel\<close> is not among them:
  the source has no call of it. An operation that throws leaves the driver as it was at
  the throw.
\<close>

datatype Operation =
    Connect rat
  | Disconnect
  | Command string string rat
  | CheckCommand string
  | RetryCommand string
  | Tick "nat \<Rightarrow> rat"

fun perform :: "IParams \<Rightarrow> Operation \<Rightarrow> Driver \<Rightarrow> Driver" where
  "perform params (Connect randomNumber) d = connect params randomNumber d"
| "perform params Disconnect d = disconnect d"
| "perform params (Command control verb target) d =
     outcome_driver (command control verb target d)"
| "perform params (CheckCommand commandKey) d =
     outcome_driver (checkCommand params commandKey d)"
| "perform params (RetryCommand commandKey) d = outcome_driver (retryCommand commandKey d)"
| "perform params (Tick getNewMeasure) d = tick params getNewMeasure d"

fun run :: "IParams \<Rightarrow> Operation list \<Rightarrow> Driver \<Rightarrow> Driver" where
  "run params [] d = d"
| "run params (op # ops) d = run params ops (perform params op d)"

subsection \<open>The scenario of the application: the button \<open>+ 10\<close>\<close>

text \<open>
  \<^verbatim>\<open>App.tsx\<close> issues \<^verbatim>\<open>command("burnerLevel", "increase", 10)\<close>. The drivers below are
  the initial driver after that command, after one retry, and after a run of
  \<^verbatim>\<open>moveBurnerLevel\<close> on the driver the command leaves; and the initial driver after
  two calls of \<^verbatim>\<open>connect\<close> that both succeed (the draw \<open>3/4\<close> is not below the rejection
  rate \<open>50 / 100\<close>).
\<close>

definition scenario_issued :: Driver where
  "scenario_issued = outcome_driver (command ''burnerLevel'' ''increase'' 10 initialDriver)"

definition scenario_retried :: Driver where
  "scenario_retried = outcome_driver (retryCommand ''burnerLevel'' scenario_issued)"


definition scenario_connected_twice :: Driver where
  "scenario_connected_twice =
     connect defaultParams (3/4) (connect defaultParams (3/4) initialDriver)"

text \<open>Two more commands issued on the initial driver: an unhandled verb, and a target of 0.\<close>

definition scenario_decrease :: Driver where
  "scenario_decrease = outcome_driver (command ''burnerLevel'' ''decrease'' 10 initialDriver)"

definition scenario_set_to_zero :: Driver where
  "scenario_set_to_zero = outcome_driver (command ''burnerLevel'' ''set_to'' 0 initialDriver)"

text \<open>
  A state for \<^verbatim>\<open>shouldRetryCommand\<close>, the initial state with a command being issued and
  the numbers JavaScript reads from \<^verbatim>\<open>0.1\<close> (value), \<^verbatim>\<open>0.9\<close> (previous value) and \<^verbatim>\<open>0.5\<close>
  (target): the doubles nearest to one tenth and to nine tenths, and one half.
\<close>

definition rounding_state :: IState where
  "rounding_state =
     initialState
       \<lparr>measures_byId := (measures_byId initialState)
          (''burnerLevel'' \<mapsto>
             \<lparr>val = 3602879701896397 / 36028797018963968, type_m = ''percentage'',
              hasTarget = True, targetValue = Some (1 / 2),
              previousValue = Some (8106479329266893 / 9007199254740992)\<rparr>),
        commands_byId := (commands_byId initialState)
          (''burnerLevel'' \<mapsto>
             \<lparr>linkedMeasure = ''burnerLevel'', command_fn = ChangeBurnerLevel,
              min_c = 0, max_c = 100, issuingCommand = True,
              lastCommand = \<lparr>lastVerb = Some ''set_to'', lastTarget = Some (1 / 2)\<rparr>,
              frequencyCycleCounter = 0, retriesCounter = 0,
              supportedVerbs = [''set_to'', ''take_control'', ''increase'', ''decrease'']\<rparr>)\<rparr>"

subsection \<open>What no operation undoes\<close>

text \<open>
  The relation the frame properties below are proved with.
  \<open>evolves d d'\<close>: every command of \<open>d\<close> is a command of \<open>d'\<close> with a \<open>retriesCounter\<close> at
  least as large; every measure of \<open>d\<close> is a measure of \<open>d'\<close> with the same \<open>hasTarget\<close>
  and, when it has a target, the same \<open>value\<close>; and the console of \<open>d'\<close> extends that of
  \<open>d\<close> by lines none of which is the line \<^verbatim>\<open>moveBurnerLevel\<close> prints when it starts.
\<close>

definition evolves :: "Driver \<Rightarrow> Driver \<Rightarrow> bool" where
  "evolves d d' \<longleftrightarrow>
     (\<forall>k c. commands_byId (state d) k = Some c \<longrightarrow>
        (\<exists>c'. commands_byId (state d') k = Some c' \<and>
              retriesCounter c \<le> retriesCounter c')) \<and>
     (\<forall>k m. measures_byId (state d) k = Some m \<longrightarrow>
        (\<exists>m'. measures_byId (state d') k = Some m' \<and> hasTarget m' = hasTarget m \<and>
              (hasTarget m \<longrightarrow> val m' = val m))) \<and>
     (\<exists>ls. console d' = console d @ ls \<and> (\<forall>e. LogChangingBurnerLevelTo e \<notin> set ls))"

section \<open>Properties\<close>

subsection \<open>Evaluation of the scenario\<close>

lemmas driver_defs =
  command_def initialDriver_def initialState_def console_log_def set_command_def
  set_measure_def changeBurnerLevel_def changeBurnerLevelTo_def retryCommand_def

declare double_minus.simps [simp del]

lemma double_minus_0_10: "double_minus (Some 0) (Some 10) = Finite (- 10)"
  by code_simp

lemma double_minus_0_0: "double_minus (Some 0) (Some 0) = Finite 0"
  by code_simp

lemma double_minus_moved: "double_minus (Some (19 / 2)) (Some 10) = Finite (- (1 / 2))"
  by code_simp

lemma double_minus_tenth:
  "double_minus (Some (3602879701896397 / 36028797018963968)) (Some (1 / 2)) =
     Finite (- (3602879701896397 / 9007199254740992))"
  by code_simp

lemma double_minus_nine_tenths:
  "double_minus (Some (8106479329266893 / 9007199254740992)) (Some (1 / 2)) =
     Finite (3602879701896397 / 9007199254740992)"
  by code_simp

lemma double_of_literals:
  "to_double (1 / 10) = Finite (3602879701896397 / 36028797018963968) \<and>
   to_double (9 / 10) = Finite (8106479329266893 / 9007199254740992) \<and>
   to_double (1 / 2) = Finite (1 / 2)"
  by code_simp

lemmas double_values =
  double_minus_0_10 double_minus_0_0 double_minus_moved double_minus_tenth
  double_minus_nine_tenths


lemma initial_measure:
  "measures_byId initialState ''burnerLevel'' =
     Some \<lparr>val = 0, type_m = ''percentage'', hasTarget = True,
           targetValue = Some 0, previousValue = Some 0\<rparr>"
  by (simp add: initialState_def)

lemma initial_command:
  "commands_byId initialState ''burnerLevel'' =
     Some \<lparr>linkedMeasure = ''burnerLevel'', command_fn = ChangeBurnerLevel,
           min_c = 0, max_c = 100, issuingCommand = False,
           lastCommand = \<lparr>lastVerb = None, lastTarget = None\<rparr>,
           frequencyCycleCounter = 0, retriesCounter = 0,
           supportedVerbs = [''set_to'', ''take_control'', ''increase'', ''decrease'']\<rparr>"
  by (simp add: initialState_def)

lemma scenario_issued_measure:
  "measures_byId (state scenario_issued) ''burnerLevel'' =
     Some \<lparr>val = 0, type_m = ''percentage'', hasTarget = True,
           targetValue = Some 10, previousValue = Some 0\<rparr>"
  unfolding scenario_issued_def by (simp add: driver_defs)

lemma scenario_issued_command:
  "commands_byId (state scenario_issued) ''burnerLevel'' =
     Some \<lparr>linkedMeasure = ''burnerLevel'', command_fn = ChangeBurnerLevel,
           min_c = 0, max_c = 100, issuingCommand = True,
           lastCommand = \<lparr>lastVerb = Some ''increase'', lastTarget = Some 10\<rparr>,
           frequencyCycleCounter = 0, retriesCounter = 0,
           supportedVerbs = [''set_to'', ''take_control'', ''increase'', ''decrease'']\<rparr>"
  unfolding scenario_issued_def by (simp add: driver_defs)

lemma scenario_retried_measure:
  "measures_byId (state scenario_retried) ''burnerLevel'' =
     Some \<lparr>val = 0, type_m = ''percentage'', hasTarget = True,
           targetValue = Some 10, previousValue = Some 0\<rparr>"
  unfolding scenario_retried_def scenario_issued_def by (simp add: driver_defs)

lemma scenario_retried_command:
  "commands_byId (state scenario_retried) ''burnerLevel'' =
     Some \<lparr>linkedMeasure = ''burnerLevel'', command_fn = ChangeBurnerLevel,
           min_c = 0, max_c = 100, issuingCommand = True,
           lastCommand = \<lparr>lastVerb = Some ''increase'', lastTarget = Some 10\<rparr>,
           frequencyCycleCounter = 0, retriesCounter = 1,
           supportedVerbs = [''set_to'', ''take_control'', ''increase'', ''decrease'']\<rparr>"
  unfolding scenario_retried_def scenario_issued_def by (simp add: driver_defs)

lemma scenario_decrease_command:
  "commands_byId (state scenario_decrease) ''burnerLevel'' =
     Some \<lparr>linkedMeasure = ''burnerLevel'', command_fn = ChangeBurnerLevel,
           min_c = 0, max_c = 100, issuingCommand = True,
           lastCommand = \<lparr>lastVerb = Some ''decrease'', lastTarget = Some 10\<rparr>,
           frequencyCycleCounter = 0, retriesCounter = 0,
           supportedVerbs = [''set_to'', ''take_control'', ''increase'', ''decrease'']\<rparr>"
  unfolding scenario_decrease_def by (simp add: driver_defs)

lemma scenario_decrease_measure:
  "measures_byId (state scenario_decrease) ''burnerLevel'' =
     Some \<lparr>val = 0, type_m = ''percentage'', hasTarget = True,
           targetValue = Some 10, previousValue = Some 0\<rparr>"
  unfolding scenario_decrease_def by (simp add: driver_defs)

lemma scenario_set_to_zero_command:
  "commands_byId (state scenario_set_to_zero) ''burnerLevel'' =
     Some \<lparr>linkedMeasure = ''burnerLevel'', command_fn = ChangeBurnerLevel,
           min_c = 0, max_c = 100, issuingCommand = True,
           lastCommand = \<lparr>lastVerb = Some ''set_to'', lastTarget = Some 0\<rparr>,
           frequencyCycleCounter = 0, retriesCounter = 0,
           supportedVerbs = [''set_to'', ''take_control'', ''increase'', ''decrease'']\<rparr>"
  unfolding scenario_set_to_zero_def by (simp add: driver_defs)

lemma scenario_set_to_zero_measure:
  "measures_byId (state scenario_set_to_zero) ''burnerLevel'' =
     Some \<lparr>val = 0, type_m = ''percentage'', hasTarget = True,
           targetValue = Some 0, previousValue = Some 0\<rparr>"
  unfolding scenario_set_to_zero_def by (simp add: driver_defs)

lemma initial_driver_command:
  "commands_byId (state initialDriver) ''burnerLevel'' =
     Some \<lparr>linkedMeasure = ''burnerLevel'', command_fn = ChangeBurnerLevel,
           min_c = 0, max_c = 100, issuingCommand = False,
           lastCommand = \<lparr>lastVerb = None, lastTarget = None\<rparr>,
           frequencyCycleCounter = 0, retriesCounter = 0,
           supportedVerbs = [''set_to'', ''take_control'', ''increase'', ''decrease'']\<rparr>"
  by (simp add: initialDriver_def initial_command)

lemma initial_driver_measure:
  "measures_byId (state initialDriver) ''burnerLevel'' =
     Some \<lparr>val = 0, type_m = ''percentage'', hasTarget = True,
           targetValue = Some 0, previousValue = Some 0\<rparr>"
  by (simp add: initialDriver_def initial_measure)













subsection \<open>The retry policy\<close>

lemma rounding_state_measure:
  "measures_byId rounding_state ''burnerLevel'' =
     Some \<lparr>val = 3602879701896397 / 36028797018963968, type_m = ''percentage'',
           hasTarget = True, targetValue = Some (1 / 2),
           previousValue = Some (8106479329266893 / 9007199254740992)\<rparr>"
  by (simp add: rounding_state_def)

lemma rounding_state_command:
  "commands_byId rounding_state ''burnerLevel'' =
     Some \<lparr>linkedMeasure = ''burnerLevel'', command_fn = ChangeBurnerLevel,
           min_c = 0, max_c = 100, issuingCommand = True,
           lastCommand = \<lparr>lastVerb = Some ''set_to'', lastTarget = Some (1 / 2)\<rparr>,
           frequencyCycleCounter = 0, retriesCounter = 0,
           supportedVerbs = [''set_to'', ''take_control'', ''increase'', ''decrease'']\<rparr>"
  by (simp add: rounding_state_def)

text \<open>
  Claim C3, as stated, fails where the distances are compared: the function compares the
  two differences after each is rounded to a double. On the state with the value
  \<^verbatim>\<open>0.1\<close>, the previous value \<^verbatim>\<open>0.9\<close> and the target \<^verbatim>\<open>0.5\<close> the distance to the
  target has strictly decreased, so in exact arithmetic \<open>\<bar>value - target\<bar>\<close> is below
  \<open>\<bar>previousValue - target\<bar>\<close>; both differences round to the same double, and with a
  command being issued and retries left the function returns true.
\<close>

theorem shouldRetryCommand_rounds_distances:
  "to_double (1 / 10) = Finite (3602879701896397 / 36028797018963968) \<and>
   to_double (9 / 10) = Finite (8106479329266893 / 9007199254740992) \<and>
   measures_byId rounding_state ''burnerLevel'' =
     Some \<lparr>val = 3602879701896397 / 36028797018963968, type_m = ''percentage'',
           hasTarget = True, targetValue = Some (1 / 2),
           previousValue = Some (8106479329266893 / 9007199254740992)\<rparr> \<and>
   \<not> \<bar>3602879701896397 / 36028797018963968 - 1 / 2\<bar> \<ge>
       \<bar>8106479329266893 / 9007199254740992 - (1 / 2 :: rat)\<bar> \<and>
   shouldRetryCommand ''burnerLevel'' rounding_state defaultParams =
     Inr (True,
          LogRetryDecision True True True
            (Finite (- (3602879701896397 / 9007199254740992)))
            (Finite (3602879701896397 / 9007199254740992)))"
proof -
  have "shouldRetryCommand ''burnerLevel'' rounding_state defaultParams =
     Inr (True,
          LogRetryDecision True True True
            (Finite (- (3602879701896397 / 9007199254740992)))
            (Finite (3602879701896397 / 9007199254740992)))"
    by (simp add: shouldRetryCommand_def rounding_state_measure rounding_state_command
        double_values defaultParams_def Let_def)
  then show ?thesis
    using double_of_literals by (simp add: rounding_state_measure)
qed

text \<open>
  Claim C3, amended. For a command whose measure has a target \<open>t\<close> and a previous value,
  \<^verbatim>\<open>shouldRetryCommand\<close> returns the conjunction of three conditions: a command is being
  issued; the distance to the target, computed in doubles, did not strictly decrease,
  that is \<open>\<bar>fl (value - t)\<bar> \<ge> \<bar>fl (previousValue - t)\<bar>\<close> where \<open>fl\<close> rounds the exact
  difference to the nearest double (equal rounded distances count as no progress); and
  either retries are not limited or \<open>retriesCounter \<le> maxNumberOfRetries\<close>, bound
  included. Where both differences are doubles themselves the comparison is the exact
  \<open>\<bar>value - t\<bar> \<ge> \<bar>previousValue - t\<bar>\<close>. With limited retries and
  \<open>maxNumberOfRetries = 0\<close> the budget holds at \<open>retriesCounter = 0\<close> and the result is
  false from \<open>retriesCounter = 1\<close> on, whatever the progress. The result is false
  whenever no command is being issued.
\<close>

theorem shouldRetryCommand_three_conditions:
  assumes "commands_byId s commandKey = Some c"
    and "measures_byId s commandKey = Some m"
    and "targetValue m = Some t"
    and "previousValue m = Some pv"
  shows "(\<exists>line. shouldRetryCommand commandKey s params =
            Inr (issuingCommand c \<and>
                 double_ge (double_abs (to_double (val m - t)))
                           (double_abs (to_double (pv - t))) \<and>
                 (\<not> commandRetryLimited params \<or>
                  retriesCounter c \<le> maxNumberOfRetries params), line)) \<and>
         (to_double (val m - t) = Finite (val m - t) \<and>
          to_double (pv - t) = Finite (pv - t) \<longrightarrow>
            (\<exists>line. shouldRetryCommand commandKey s params =
               Inr (issuingCommand c \<and> \<bar>val m - t\<bar> \<ge> \<bar>pv - t\<bar> \<and>
                    (\<not> commandRetryLimited params \<or>
                     retriesCounter c \<le> maxNumberOfRetries params), line))) \<and>
         (commandRetryLimited params \<and> maxNumberOfRetries params = 0 \<and>
          retriesCounter c = 0 \<longrightarrow>
            (\<exists>line. shouldRetryCommand commandKey s params =
               Inr (issuingCommand c \<and>
                    double_ge (double_abs (to_double (val m - t)))
                              (double_abs (to_double (pv - t))), line))) \<and>
         (commandRetryLimited params \<and> maxNumberOfRetries params = 0 \<and>
          retriesCounter c \<ge> 1 \<longrightarrow>
            (\<exists>line. shouldRetryCommand commandKey s params = Inr (False, line))) \<and>
         (\<not> issuingCommand c \<longrightarrow>
            (\<exists>line. shouldRetryCommand commandKey s params = Inr (False, line)))"
  using assms by (auto simp: shouldRetryCommand_def Let_def double_minus.simps)

text \<open>
  Four instances, with limited retries and \<open>maxNumberOfRetries = 0\<close>: the command just
  issued is retried, the command retried once is not, the idle command of the initial
  state is not, and the command of the state with the values \<^verbatim>\<open>0.1\<close>, \<^verbatim>\<open>0.9\<close>,
  \<^verbatim>\<open>0.5\<close> is retried.
\<close>

theorem shouldRetryCommand_three_conditions_witness:
  "(\<exists>line. shouldRetryCommand ''burnerLevel'' (state scenario_issued)
             (defaultParams\<lparr>maxNumberOfRetries := 0\<rparr>) = Inr (True, line)) \<and>
   (\<exists>line. shouldRetryCommand ''burnerLevel'' (state scenario_retried)
             (defaultParams\<lparr>maxNumberOfRetries := 0\<rparr>) = Inr (False, line)) \<and>
   (\<exists>line. shouldRetryCommand ''burnerLevel'' initialState
             (defaultParams\<lparr>maxNumberOfRetries := 0\<rparr>) = Inr (False, line)) \<and>
   (\<exists>line. shouldRetryCommand ''burnerLevel'' rounding_state
             (defaultParams\<lparr>maxNumberOfRetries := 0\<rparr>) = Inr (True, line))"
proof -
  have v1: "to_double (- 10) = Finite (- 10)"
    by code_simp
  have v2: "to_double 0 = Finite 0"
    by code_simp
  have v3: "to_double (- (14411518807585587 / 36028797018963968)) =
      Finite (- (3602879701896397 / 9007199254740992))"
    by code_simp
  have v4: "to_double (3602879701896397 / 9007199254740992) =
      Finite (3602879701896397 / 9007199254740992)"
    by code_simp
  show ?thesis
    using
      shouldRetryCommand_three_conditions
        [OF scenario_issued_command scenario_issued_measure, of 10 0
           "defaultParams\<lparr>maxNumberOfRetries := 0\<rparr>"]
      shouldRetryCommand_three_conditions
        [OF scenario_retried_command scenario_retried_measure, of 10 0
           "defaultParams\<lparr>maxNumberOfRetries := 0\<rparr>"]
      shouldRetryCommand_three_conditions
        [OF initial_command initial_measure, of 0 0
           "defaultParams\<lparr>maxNumberOfRetries := 0\<rparr>"]
      shouldRetryCommand_three_conditions
        [OF rounding_state_command rounding_state_measure, of "1 / 2"
           "8106479329266893 / 9007199254740992"
           "defaultParams\<lparr>maxNumberOfRetries := 0\<rparr>"]
    by (simp add: defaultParams_def v1 v2 v3 v4)
qed

subsection \<open>Retrying a command\<close>

lemma invoke_no_arguments:
  "invoke b None None d = Returned (console_log (LogNotImplemented None None) d)"
  by (cases b) (simp add: changeBurnerLevel_def)

lemma retryCommand_present:
  assumes "commands_byId (state d) commandKey = Some c"
    and "measures_byId (state d) commandKey = Some m"
  shows "retryCommand commandKey d =
           Returned (set_measure commandKey (m\<lparr>previousValue := Some (val m)\<rparr>)
             (set_command commandKey (c\<lparr>retriesCounter := retriesCounter c + 1\<rparr>)
               (console_log (LogNotImplemented None None) d)))"
  using assms
  by (simp add: retryCommand_def invoke_no_arguments console_log_def set_command_def
      set_measure_def)

text \<open>
  Claim C10. \<^verbatim>\<open>retryCommand\<close> calls the stored behaviour with no argument, so the verb
  is \<^verbatim>\<open>undefined\<close> and the dispatch takes the default branch, which only prints
  "Not implemented". For a command that exists together with its measure (and is being
  issued), \<^verbatim>\<open>retryCommand\<close> returns, and its only effects on the state are
  \<open>retriesCounter + 1\<close> and \<open>previousValue := value\<close>: \<open>value\<close>, \<open>targetValue\<close>,
  \<open>issuingCommand\<close>, \<open>lastCommand\<close> and every other entry are as before.
\<close>

theorem retryCommand_effects:
  assumes "commands_byId (state d) commandKey = Some c"
    and "measures_byId (state d) commandKey = Some m"
    and "issuingCommand c"
  shows "invoke (command_fn c) None None d =
           Returned (console_log (LogNotImplemented None None) d) \<and>
         retryCommand commandKey d =
           Returned (d\<lparr>console := console d @ [LogNotImplemented None None],
                       state := (state d)
                         \<lparr>commands_byId := (commands_byId (state d))
                            (commandKey \<mapsto> c\<lparr>retriesCounter := retriesCounter c + 1\<rparr>),
                          measures_byId := (measures_byId (state d))
                            (commandKey \<mapsto> m\<lparr>previousValue := Some (val m)\<rparr>)\<rparr>\<rparr>)"
  using assms
  by (simp add: retryCommand_present invoke_no_arguments console_log_def set_command_def
      set_measure_def)

theorem retryCommand_effects_witness:
  "retryCommand ''burnerLevel'' scenario_issued =
     Returned (scenario_issued
       \<lparr>console := console scenario_issued @ [LogNotImplemented None None],
        state := (state scenario_issued)
          \<lparr>commands_byId := (commands_byId (state scenario_issued))
             (''burnerLevel'' \<mapsto>
                \<lparr>linkedMeasure = ''burnerLevel'', command_fn = ChangeBurnerLevel,
                 min_c = 0, max_c = 100, issuingCommand = True,
                 lastCommand = \<lparr>lastVerb = Some ''increase'', lastTarget = Some 10\<rparr>,
                 frequencyCycleCounter = 0, retriesCounter = 1,
                 supportedVerbs = [''set_to'', ''take_control'', ''increase'', ''decrease'']\<rparr>),
           measures_byId := (measures_byId (state scenario_issued))
             (''burnerLevel'' \<mapsto>
                \<lparr>val = 0, type_m = ''percentage'', hasTarget = True,
                 targetValue = Some 10, previousValue = Some 0\<rparr>)\<rparr>\<rparr>)"
  using retryCommand_effects [OF scenario_issued_command scenario_issued_measure]
  by simp

subsection \<open>The convergence check\<close>

lemma checkCommand_result:
  assumes "commands_byId (state d) commandKey = Some c"
    and "measures_byId (state d) commandKey = Some m"
    and "targetValue m = Some t"
  shows "\<exists>d' c'. checkCommand params commandKey d = Returned d' \<and>
           commands_byId (state d') commandKey = Some c' \<and>
           ((\<not> issuingCommand c') =
              (\<not> issuingCommand c \<or> \<bar>val m - t\<bar> \<le> 0.01 * val m)) \<and>
           (issuingCommand c' \<longrightarrow> issuingCommand c)"
proof (cases "\<exists>line. shouldRetryCommand commandKey (state d) params = Inr (True, line)")
  case True
  then obtain line where
    "shouldRetryCommand commandKey (state d) params = Inr (True, line)" by blast
  with assms show ?thesis
    by (simp add: checkCommand_def retryCommand_present console_log_def set_command_def
        set_measure_def)
next
  case False
  with assms obtain line where
    "shouldRetryCommand commandKey (state d) params = Inr (False, line)"
    by (auto simp: shouldRetryCommand_def Let_def)
  with assms show ?thesis
    by (simp add: checkCommand_def console_log_def set_command_def)
qed

text \<open>
  Claim C5. For a command that exists together with its measure, whose target is \<open>t\<close>,
  \<^verbatim>\<open>checkCommand\<close> returns, and afterwards \<open>issuingCommand\<close> is false exactly when it
  was false before or \<open>\<bar>value - t\<bar> \<le> 0.01 * value\<close> held (a tolerance relative to the
  current value, which is zero at \<open>value = 0\<close>). \<^verbatim>\<open>checkCommand\<close> never sets
  \<open>issuingCommand\<close> to true.
\<close>

theorem checkCommand_issuingCommand:
  assumes "commands_byId (state d) commandKey = Some c"
    and "measures_byId (state d) commandKey = Some m"
    and "targetValue m = Some t"
  shows "\<exists>d' c'. checkCommand params commandKey d = Returned d' \<and>
           commands_byId (state d') commandKey = Some c' \<and>
           ((\<not> issuingCommand c') =
              (\<not> issuingCommand c \<or> \<bar>val m - t\<bar> \<le> 0.01 * val m)) \<and>
           (issuingCommand c' \<longrightarrow> issuingCommand c)"
  using checkCommand_result [OF assms] .

text \<open>
  Two instances: the command to increase by 10 stays issued (\<open>\<bar>0 - 10\<bar> > 0\<close>), the command
  to set the level to 0 is cleared (\<open>\<bar>0 - 0\<bar> \<le> 0\<close>).
\<close>

theorem checkCommand_issuingCommand_witness:
  "(\<exists>d' c'. checkCommand defaultParams ''burnerLevel'' scenario_issued = Returned d' \<and>
      commands_byId (state d') ''burnerLevel'' = Some c' \<and> issuingCommand c') \<and>
   (\<exists>d' c'. checkCommand defaultParams ''burnerLevel'' scenario_set_to_zero = Returned d' \<and>
      commands_byId (state d') ''burnerLevel'' = Some c' \<and> \<not> issuingCommand c')"
  using
    checkCommand_issuingCommand
      [OF scenario_issued_command scenario_issued_measure, of 10 defaultParams]
    checkCommand_issuingCommand
      [OF scenario_set_to_zero_command scenario_set_to_zero_measure, of 0 defaultParams]
  by simp

lemma checkCommand_idle:
  assumes "commands_byId (state d) commandKey = Some c" and "\<not> issuingCommand c"
  shows "\<exists>ls. outcome_driver (checkCommand params commandKey d) =
                 d\<lparr>console := console d @ ls\<rparr> \<and>
              (\<forall>e \<in> set ls. \<exists>p cr cd pd. e = LogRetryDecision False p cr cd pd)"
proof (cases "measures_byId (state d) commandKey")
  case None
  with assms have "outcome_driver (checkCommand params commandKey d) = d\<lparr>console := console d @ []\<rparr>"
    by (simp add: checkCommand_def shouldRetryCommand_def)
  then show ?thesis by fastforce
next
  case (Some m)
  let ?line = "LogRetryDecision False
      (double_ge (double_abs (double_minus (Some (val m)) (targetValue m)))
         (double_abs (double_minus (previousValue m) (targetValue m))))
      (commandRetryLimited params \<and> retriesCounter c \<le> maxNumberOfRetries params \<or>
       \<not> commandRetryLimited params)
      (double_minus (Some (val m)) (targetValue m))
      (double_minus (previousValue m) (targetValue m))"
  from Some assms have "outcome_driver (checkCommand params commandKey d) =
      d\<lparr>console := console d @ [?line]\<rparr>"
    by (simp add: checkCommand_def shouldRetryCommand_def Let_def console_log_def)
  then show ?thesis by fastforce
qed

lemma checkCommand_idle_run:
  assumes "commands_byId (state d) commandKey = Some c" and "\<not> issuingCommand c"
  shows "\<exists>ls. run params (replicate n (CheckCommand commandKey)) d =
                 d\<lparr>console := console d @ ls\<rparr> \<and>
              (\<forall>e \<in> set ls. \<exists>p cr cd pd. e = LogRetryDecision False p cr cd pd)"
  using assms
proof (induction n arbitrary: d)
  case 0
  have "run params (replicate 0 (CheckCommand commandKey)) d = d\<lparr>console := console d @ []\<rparr>"
    by simp
  then show ?case by fastforce
next
  case (Suc n)
  from checkCommand_idle [OF Suc.prems, of params] obtain ls where
    step: "outcome_driver (checkCommand params commandKey d) = d\<lparr>console := console d @ ls\<rparr>"
    and ls: "\<forall>e \<in> set ls. \<exists>p cr cd pd. e = LogRetryDecision False p cr cd pd"
    by blast
  let ?d1 = "d\<lparr>console := console d @ ls\<rparr>"
  have "commands_byId (state ?d1) commandKey = Some c"
    using Suc.prems by simp
  from Suc.IH [OF this Suc.prems(2)] obtain ls' where
    rest: "run params (replicate n (CheckCommand commandKey)) ?d1 =
             ?d1\<lparr>console := console ?d1 @ ls'\<rparr>"
    and ls': "\<forall>e \<in> set ls'. \<exists>p cr cd pd. e = LogRetryDecision False p cr cd pd"
    by blast
  have "run params (replicate (Suc n) (CheckCommand commandKey)) d =
          d\<lparr>console := console d @ (ls @ ls')\<rparr>"
    using step rest by simp
  moreover have "\<forall>e \<in> set (ls @ ls'). \<exists>p cr cd pd. e = LogRetryDecision False p cr cd pd"
    using ls ls' by auto
  ultimately show ?case by blast
qed

text \<open>
  Claim C6. When a command is not being issued, any number of calls of \<^verbatim>\<open>checkCommand\<close>
  on it leaves the state as it is, \<open>retriesCounter\<close> included, and never calls the
  command's behaviour: the console gains no "Not implemented" line (which the call with
  no argument always prints), no "Changing target" and no "stop command" line.
\<close>

theorem checkCommand_idempotent_when_idle:
  assumes "commands_byId (state d) commandKey = Some c" and "\<not> issuingCommand c"
  shows "state (run params (replicate n (CheckCommand commandKey)) d) = state d \<and>
         commands_byId (state (run params (replicate n (CheckCommand commandKey)) d))
           commandKey = Some c \<and>
         (\<exists>ls. console (run params (replicate n (CheckCommand commandKey)) d) =
                  console d @ ls \<and>
               (\<forall>verb target. LogNotImplemented verb target \<notin> set ls) \<and>
               LogChangingTarget \<notin> set ls \<and> LogStopCommand \<notin> set ls)"
proof -
  from checkCommand_idle_run [OF assms, of params n] obtain ls where
    r: "run params (replicate n (CheckCommand commandKey)) d = d\<lparr>console := console d @ ls\<rparr>"
    and ls: "\<forall>e \<in> set ls. \<exists>p cr cd pd. e = LogRetryDecision False p cr cd pd"
    by blast
  from ls have "(\<forall>verb target. LogNotImplemented verb target \<notin> set ls) \<and>
      LogChangingTarget \<notin> set ls \<and> LogStopCommand \<notin> set ls"
    by auto
  with r assms(1) show ?thesis by simp
qed

theorem checkCommand_idempotent_when_idle_witness:
  "state (run defaultParams (replicate 3 (CheckCommand ''burnerLevel'')) initialDriver) =
     state initialDriver \<and>
   map_option retriesCounter
     (commands_byId
        (state (run defaultParams (replicate 3 (CheckCommand ''burnerLevel'')) initialDriver))
        ''burnerLevel'') = Some 0"
  using checkCommand_idempotent_when_idle
    [OF initial_driver_command, of defaultParams 3]
  by (simp add: initial_driver_command)

subsection \<open>Verbs without a handler\<close>

text \<open>
  Claim C2, as stated, fails: \<^verbatim>\<open>command\<close> writes \<open>issuingCommand\<close>, \<open>lastCommand\<close>,
  \<open>previousValue\<close> and \<open>targetValue\<close> before it looks at the verb. After
  \<^verbatim>\<open>command("burnerLevel", "decrease", 10)\<close> on the initial driver the state differs from
  the initial state: \<open>issuingCommand\<close> is true and \<open>targetValue\<close> is 10.
\<close>

theorem command_decrease_mutates_state:
  "state scenario_decrease \<noteq> state initialDriver \<and>
   map_option issuingCommand (commands_byId (state initialDriver) ''burnerLevel'') = Some False \<and>
   map_option issuingCommand (commands_byId (state scenario_decrease) ''burnerLevel'') = Some True \<and>
   map_option targetValue (measures_byId (state initialDriver) ''burnerLevel'') = Some (Some 0) \<and>
   map_option targetValue (measures_byId (state scenario_decrease) ''burnerLevel'') = Some (Some 10)"
proof -
  have a: "map_option issuingCommand (commands_byId (state initialDriver) ''burnerLevel'') = Some False"
    by (simp add: initialDriver_def initial_command)
  have b: "map_option issuingCommand (commands_byId (state scenario_decrease) ''burnerLevel'') = Some True"
    by (simp add: scenario_decrease_command)
  from a b have "state scenario_decrease \<noteq> state initialDriver" by auto
  then show ?thesis
    using a b by (simp add: scenario_decrease_measure initialDriver_def initial_measure)
qed

text \<open>
  Claim C2, amended. For a verb other than "set_to" and "increase" the dispatch
  \<^verbatim>\<open>changeBurnerLevel\<close> changes nothing and prints "Not implemented" with the verb and
  the target. \<^verbatim>\<open>command\<close> on an existing command and measure returns without a throw;
  its effects are the two console lines and the writes of its set-up:
  \<open>issuingCommand := true\<close>, \<open>lastCommand := (verb, target)\<close>,
  \<open>previousValue := value\<close>, \<open>targetValue := target\<close>.
\<close>

theorem command_unsupported_verb:
  assumes "verb \<noteq> ''set_to''" and "verb \<noteq> ''increase''"
    and "commands_byId (state d) control = Some c"
    and "measures_byId (state d) control = Some m"
  shows "changeBurnerLevel (Some verb) (Some target) d =
           Returned (console_log (LogNotImplemented (Some verb) (Some target)) d) \<and>
         command control verb target d =
           Returned (d\<lparr>console := console d @
                         [LogIssuingCommand control verb target,
                          LogNotImplemented (Some verb) (Some target)],
                       state := (state d)
                         \<lparr>commands_byId := (commands_byId (state d))
                            (control \<mapsto> c\<lparr>issuingCommand := True,
                                           lastCommand := (lastCommand c)
                                             \<lparr>lastVerb := Some verb,
                                              lastTarget := Some target\<rparr>\<rparr>),
                          measures_byId := (measures_byId (state d))
                            (control \<mapsto> m\<lparr>previousValue := Some (val m),
                                           targetValue := Some target\<rparr>)\<rparr>\<rparr>)"
  using assms
  by (cases "command_fn c")
     (simp add: command_def changeBurnerLevel_def console_log_def set_command_def
        set_measure_def)

theorem command_unsupported_verb_witness:
  "command ''burnerLevel'' ''take_control'' 0 initialDriver =
     Returned (initialDriver
       \<lparr>console := [LogIssuingCommand ''burnerLevel'' ''take_control'' 0,
                    LogNotImplemented (Some ''take_control'') (Some 0)],
        state := initialState
          \<lparr>commands_byId := (commands_byId initialState)
             (''burnerLevel'' \<mapsto>
                \<lparr>linkedMeasure = ''burnerLevel'', command_fn = ChangeBurnerLevel,
                 min_c = 0, max_c = 100, issuingCommand = True,
                 lastCommand = \<lparr>lastVerb = Some ''take_control'', lastTarget = Some 0\<rparr>,
                 frequencyCycleCounter = 0, retriesCounter = 0,
                 supportedVerbs = [''set_to'', ''take_control'', ''increase'', ''decrease'']\<rparr>),
           measures_byId := (measures_byId initialState)
             (''burnerLevel'' \<mapsto>
                \<lparr>val = 0, type_m = ''percentage'', hasTarget = True,
                 targetValue = Some 0, previousValue = Some 0\<rparr>)\<rparr>\<rparr>)"
  using command_unsupported_verb
    [OF _ _ initial_driver_command initial_driver_measure, of "''take_control''" 0]
  by (simp add: initialDriver_def)

subsection \<open>Connecting and disconnecting\<close>

text \<open>
  Claim C4. \<^verbatim>\<open>connect\<close> draws one random number. When it is below
  \<open>connectionRejectionPercentage / 100\<close> the attempt fails: \<open>failedConnections\<close> grows by
  one, \<open>connected\<close> is false, no sampling cycle starts, and a retry is scheduled exactly
  when \<open>maxReconnectionAttempts = 0\<close> or the new \<open>failedConnections\<close> is strictly below
  \<open>maxReconnectionAttempts\<close>. Otherwise the attempt succeeds: \<open>failedConnections\<close> is 0,
  \<open>connected\<close> is true, the sampling cycle starts at \<open>samplingFrequency\<close>, and no retry
  is scheduled. With 100 percent every attempt (a draw below 1) fails; with 0 percent
  every attempt (a draw of at least 0) succeeds.
\<close>

theorem connect_outcome:
  "(randomNumber < connectionRejectionPercentage params / 100 \<longrightarrow>
      failedConnections (state (connect params randomNumber d)) =
        failedConnections (state d) + 1 \<and>
      \<not> connected (state (connect params randomNumber d)) \<and>
      reconnectTimeouts (connect params randomNumber d) =
        (if maxReconnectionAttempts params = 0 \<or>
            failedConnections (state d) + 1 < maxReconnectionAttempts params
         then reconnectTimeouts d @ [nextTimerId d] else reconnectTimeouts d) \<and>
      intervals (connect params randomNumber d) = intervals d \<and>
      updateCycleId (connect params randomNumber d) = updateCycleId d) \<and>
   (\<not> randomNumber < connectionRejectionPercentage params / 100 \<longrightarrow>
      failedConnections (state (connect params randomNumber d)) = 0 \<and>
      connected (state (connect params randomNumber d)) \<and>
      intervals (connect params randomNumber d) =
        intervals d @ [(nextTimerId d, samplingFrequency params)] \<and>
      updateCycleId (connect params randomNumber d) = Some (nextTimerId d) \<and>
      reconnectTimeouts (connect params randomNumber d) = reconnectTimeouts d) \<and>
   (connectionRejectionPercentage params = 100 \<and> randomNumber < 1 \<longrightarrow>
      \<not> connected (state (connect params randomNumber d)) \<and>
      failedConnections (state (connect params randomNumber d)) =
        failedConnections (state d) + 1) \<and>
   (connectionRejectionPercentage params = 0 \<and> 0 \<le> randomNumber \<longrightarrow>
      connected (state (connect params randomNumber d)) \<and>
      failedConnections (state (connect params randomNumber d)) = 0)"
  by (simp add: connect_def createConnection_def startUpdateCycle_def console_log_def Let_def)

theorem connect_outcome_witness:
  "\<not> connected (state (connect defaultParams (1/4) initialDriver)) \<and>
   failedConnections (state (connect defaultParams (1/4) initialDriver)) = 1 \<and>
   reconnectTimeouts (connect defaultParams (1/4) initialDriver) = [1] \<and>
   reconnectTimeouts
     (connect (defaultParams\<lparr>maxReconnectionAttempts := 1\<rparr>) (1/4) initialDriver) = [] \<and>
   connected (state (connect defaultParams (3/4) initialDriver)) \<and>
   intervals (connect defaultParams (3/4) initialDriver) = [(1, 1000)] \<and>
   \<not> connected (state (connect (defaultParams\<lparr>connectionRejectionPercentage := 100\<rparr>)
                          (3/4) initialDriver)) \<and>
   connected (state (connect (defaultParams\<lparr>connectionRejectionPercentage := 0\<rparr>)
                        (1/4) initialDriver))"
  using
    connect_outcome [of "1/4" defaultParams initialDriver]
    connect_outcome [of "1/4" "defaultParams\<lparr>maxReconnectionAttempts := 1\<rparr>" initialDriver]
    connect_outcome [of "3/4" defaultParams initialDriver]
    connect_outcome [of "3/4" "defaultParams\<lparr>connectionRejectionPercentage := 100\<rparr>"
                      initialDriver]
    connect_outcome [of "1/4" "defaultParams\<lparr>connectionRejectionPercentage := 0\<rparr>"
                      initialDriver]
  by (simp add: defaultParams_def initialDriver_def initialState_def)

text \<open>
  What \<^verbatim>\<open>disconnect\<close> does on every driver: it sets \<open>connected\<close> to false and leaves
  every other field of the state as it is; it removes the timer recorded in
  \<open>updateCycleId\<close>, and no other, and starts none. After \<^verbatim>\<open>disconnect\<close> and then
  \<^verbatim>\<open>connect\<close>, whatever its outcome, the measures and the commands are those from
  before: every \<open>retriesCounter\<close> and every \<open>value\<close> persists.
\<close>

lemma disconnect_connect_frame:
  "state (disconnect d) = (state d)\<lparr>connected := False\<rparr> \<and>
   console (disconnect d) = console d \<and>
   updateCycleId (disconnect d) = updateCycleId d \<and>
   reconnectTimeouts (disconnect d) = reconnectTimeouts d \<and>
   nextTimerId (disconnect d) = nextTimerId d \<and>
   set (intervals (disconnect d)) \<subseteq> set (intervals d) \<and>
   (\<forall>i. updateCycleId d = Some i \<longrightarrow> i \<notin> fst ` set (intervals (disconnect d))) \<and>
   measures_byId (state (connect params randomNumber (disconnect d))) =
     measures_byId (state d) \<and>
   commands_byId (state (connect params randomNumber (disconnect d))) =
     commands_byId (state d) \<and>
   measures_byName (state (connect params randomNumber (disconnect d))) =
     measures_byName (state d) \<and>
   commands_byName (state (connect params randomNumber (disconnect d))) =
     commands_byName (state d)"
  by (cases "updateCycleId d")
     (auto simp: disconnect_def clearInterval_def connect_def createConnection_def
        startUpdateCycle_def console_log_def Let_def)

text \<open>
  Claim C7 says that \<^verbatim>\<open>disconnect\<close> cancels the update cycle, and the source describes it
  as "called to programmatically stop the update cycle". The code does not on the
  driver two successful calls of \<^verbatim>\<open>connect\<close> leave: each call starts a sampling timer,
  \<open>updateCycleId\<close> holds the second only, and \<^verbatim>\<open>disconnect\<close> clears that one. The first
  timer stays active, with \<open>connected\<close> false.
\<close>

theorem disconnect_leaves_earlier_cycle:
  "intervals scenario_connected_twice = [(1, 1000), (2, 1000)] \<and>
   updateCycleId scenario_connected_twice = Some 2 \<and>
   connected (state scenario_connected_twice) \<and>
   intervals (disconnect scenario_connected_twice) = [(1, 1000)] \<and>
   \<not> connected (state (disconnect scenario_connected_twice))"
  by (simp add: scenario_connected_twice_def connect_def createConnection_def
      startUpdateCycle_def console_log_def disconnect_def clearInterval_def
      defaultParams_def initialDriver_def Let_def)

theorem disconnect_leaves_earlier_cycle_witness:
  "intervals (disconnect scenario_connected_twice) \<noteq> []"
  using disconnect_leaves_earlier_cycle by simp

subsection \<open>Every operation makes the driver evolve\<close>

lemma evolves_refl: "evolves d d"
  by (simp add: evolves_def)

lemma evolves_trans:
  assumes "evolves d1 d2" and "evolves d2 d3"
  shows "evolves d1 d3"
  unfolding evolves_def
proof (intro conjI allI impI)
  fix k c
  assume "commands_byId (state d1) k = Some c"
  with assms(1) obtain c2 where c2: "commands_byId (state d2) k = Some c2"
    "retriesCounter c \<le> retriesCounter c2"
    unfolding evolves_def by blast
  with assms(2) obtain c3 where "commands_byId (state d3) k = Some c3"
    "retriesCounter c2 \<le> retriesCounter c3"
    unfolding evolves_def by blast
  with c2 show "\<exists>c'. commands_byId (state d3) k = Some c' \<and>
      retriesCounter c \<le> retriesCounter c'"
    by auto
next
  fix k m
  assume "measures_byId (state d1) k = Some m"
  with assms(1) obtain m2 where m2: "measures_byId (state d2) k = Some m2"
    "hasTarget m2 = hasTarget m" "hasTarget m \<longrightarrow> val m2 = val m"
    unfolding evolves_def by blast
  with assms(2) obtain m3 where "measures_byId (state d3) k = Some m3"
    "hasTarget m3 = hasTarget m2" "hasTarget m2 \<longrightarrow> val m3 = val m2"
    unfolding evolves_def by blast
  with m2 show "\<exists>m'. measures_byId (state d3) k = Some m' \<and> hasTarget m' = hasTarget m \<and>
      (hasTarget m \<longrightarrow> val m' = val m)"
    by auto
next
  from assms(1) obtain ls where ls: "console d2 = console d1 @ ls"
    "\<forall>e. LogChangingBurnerLevelTo e \<notin> set ls"
    unfolding evolves_def by blast
  from assms(2) obtain ls' where ls': "console d3 = console d2 @ ls'"
    "\<forall>e. LogChangingBurnerLevelTo e \<notin> set ls'"
    unfolding evolves_def by blast
  from ls ls' have "console d3 = console d1 @ (ls @ ls')"
    "\<forall>e. LogChangingBurnerLevelTo e \<notin> set (ls @ ls')"
    by auto
  then show "\<exists>ls. console d3 = console d1 @ ls \<and> (\<forall>e. LogChangingBurnerLevelTo e \<notin> set ls)"
    by blast
qed

lemma evolves_console_log:
  assumes "\<And>x. e \<noteq> LogChangingBurnerLevelTo x"
  shows "evolves d (console_log e d)"
  using assms by (auto simp: evolves_def console_log_def)

lemma evolves_set_measure:
  assumes "measures_byId (state d) key = Some m"
    and "hasTarget m' = hasTarget m"
    and "hasTarget m \<Longrightarrow> val m' = val m"
  shows "evolves d (set_measure key m' d)"
  using assms by (simp add: evolves_def set_measure_def)

lemma evolves_set_command:
  assumes "commands_byId (state d) key = Some c"
    and "retriesCounter c \<le> retriesCounter c'"
  shows "evolves d (set_command key c' d)"
  using assms by (simp add: evolves_def set_command_def)

lemma evolves_changeBurnerLevelTo:
  "evolves d (outcome_driver (changeBurnerLevelTo target d))"
  by (auto simp: changeBurnerLevelTo_def evolves_refl intro!: evolves_set_measure
      split: option.splits)

lemma evolves_changeBurnerLevel:
  "evolves d (outcome_driver (changeBurnerLevel verb target d))"
  unfolding changeBurnerLevel_def
  by (auto simp: evolves_refl split: option.splits
      intro: evolves_changeBurnerLevelTo evolves_console_log
        evolves_trans [OF evolves_console_log evolves_changeBurnerLevelTo])

lemma evolves_invoke:
  "evolves d (outcome_driver (invoke b verb target d))"
  by (cases b) (simp add: evolves_changeBurnerLevel)


lemma evolves_command:
  "evolves d (outcome_driver (command control verb target d))"
proof -
  let ?d0 = "console_log (LogIssuingCommand control verb target) d"
  have e0: "evolves d ?d0" by (simp add: evolves_console_log)
  show ?thesis
  proof (cases "commands_byId (state ?d0) control")
    case None
    then show ?thesis using e0 by (simp add: command_def Let_def)
  next
    case (Some c)
    let ?d1 = "set_command control
                 (c\<lparr>issuingCommand := True,
                    lastCommand := (lastCommand c)\<lparr>lastVerb := Some verb,
                                                    lastTarget := Some target\<rparr>\<rparr>) ?d0"
    have e1: "evolves d ?d1"
      using Some by (auto intro!: evolves_trans [OF e0] evolves_set_command)
    show ?thesis
    proof (cases "measures_byId (state ?d1) control")
      case None
      then show ?thesis using Some e1 by (simp add: command_def Let_def)
    next
      case m: (Some m)
      let ?d2 = "set_measure control
                   (m\<lparr>previousValue := Some (val m), targetValue := Some target\<rparr>) ?d1"
      have "evolves ?d1 ?d2"
        using m by (auto intro!: evolves_set_measure)
      with e1 have "evolves d ?d2" by (rule evolves_trans)
      then have "evolves d (outcome_driver (invoke (command_fn c) (Some verb) (Some target) ?d2))"
        by (rule evolves_trans) (rule evolves_invoke)
      then show ?thesis using Some m by (simp add: command_def Let_def)
    qed
  qed
qed

lemma evolves_retryCommand:
  "evolves d (outcome_driver (retryCommand commandKey d))"
proof (cases "commands_byId (state d) commandKey")
  case None
  then show ?thesis by (simp add: retryCommand_def evolves_refl)
next
  case (Some c)
  let ?d1 = "console_log (LogNotImplemented None None) d"
  have e1: "evolves d ?d1" by (simp add: evolves_console_log)
  have c1: "commands_byId (state ?d1) commandKey = Some c"
    using Some by (simp add: console_log_def)
  let ?d2 = "set_command commandKey (c\<lparr>retriesCounter := retriesCounter c + 1\<rparr>) ?d1"
  have e2: "evolves d ?d2"
    using c1 by (auto intro!: evolves_trans [OF e1] evolves_set_command)
  show ?thesis
  proof (cases "measures_byId (state ?d2) commandKey")
    case None
    then show ?thesis
      using Some c1 e2 by (simp add: retryCommand_def invoke_no_arguments)
  next
    case m: (Some m)
    have "evolves ?d2 (set_measure commandKey (m\<lparr>previousValue := Some (val m)\<rparr>) ?d2)"
      using m by (auto intro!: evolves_set_measure)
    with e2 have "evolves d (set_measure commandKey (m\<lparr>previousValue := Some (val m)\<rparr>) ?d2)"
      by (rule evolves_trans)
    then show ?thesis
      using Some c1 m by (simp add: retryCommand_def invoke_no_arguments)
  qed
qed

lemma evolves_convergence:
  "evolves d1
     (outcome_driver
        (case measures_byId (state d1) commandKey of
           None \<Rightarrow> Threw TypeError d1
         | Some m \<Rightarrow>
             if js_le (js_abs (js_minus (Some (val m)) (targetValue m)))
                      (Some (0.01 * val m))
             then (case commands_byId (state d1) commandKey of
                     None \<Rightarrow> Threw TypeError d1
                   | Some c \<Rightarrow>
                       if issuingCommand c
                       then Returned (set_command commandKey
                                        (c\<lparr>issuingCommand := False\<rparr>)
                                        (console_log LogStopCommand d1))
                       else Returned d1)
             else Returned d1))"
proof -
  have stop: "evolves d1 (set_command commandKey (c\<lparr>issuingCommand := False\<rparr>)
                            (console_log LogStopCommand d1))"
    if "commands_byId (state d1) commandKey = Some c" for c
  proof -
    have "evolves d1 (console_log LogStopCommand d1)"
      by (simp add: evolves_console_log)
    moreover have "evolves (console_log LogStopCommand d1)
        (set_command commandKey (c\<lparr>issuingCommand := False\<rparr>)
           (console_log LogStopCommand d1))"
      using that by (auto intro!: evolves_set_command simp: console_log_def)
    ultimately show ?thesis by (rule evolves_trans)
  qed
  show ?thesis
    by (auto simp: evolves_refl stop split: option.splits)
qed

lemma evolves_checkCommand:
  "evolves d (outcome_driver (checkCommand params commandKey d))"
proof (cases "shouldRetryCommand commandKey (state d) params")
  case (Inl e)
  then show ?thesis by (simp add: checkCommand_def evolves_refl)
next
  case (Inr r)
  obtain retry line where r: "r = (retry, line)" by (cases r)
  from Inr r have line: "\<forall>x. line \<noteq> LogChangingBurnerLevelTo x"
    by (auto simp: shouldRetryCommand_def Let_def split: option.splits)
  let ?d0 = "console_log line d"
  have e0: "evolves d ?d0" using line by (simp add: evolves_console_log)
  let ?o = "if retry then retryCommand commandKey ?d0 else Returned ?d0"
  have e1: "evolves d (outcome_driver ?o)"
    using e0 evolves_trans [OF e0 evolves_retryCommand] by simp
  show ?thesis
  proof (cases ?o)
    case (Threw e d')
    with e1 Inr r show ?thesis by (simp add: checkCommand_def)
  next
    case (Returned d1)
    with e1 have "evolves d d1" by simp
    from evolves_trans [OF this evolves_convergence [of d1 commandKey]]
    show ?thesis using Inr r Returned by (simp add: checkCommand_def)
  qed
qed

lemma evolves_updateMeasures:
  "evolves d (updateMeasures getNewMeasure i keys d)"
proof (induction keys arbitrary: i d)
  case Nil
  show ?case by (simp add: evolves_refl)
next
  case (Cons key keys)
  show ?case
  proof (cases "measures_byId (state d) key")
    case None
    then show ?thesis using Cons.IH by simp
  next
    case (Some m)
    show ?thesis
    proof (cases "hasTarget m")
      case True
      then show ?thesis using Some Cons.IH by simp
    next
      case False
      let ?d1 = "set_measure key (m\<lparr>val := getNewMeasure i\<rparr>) d"
      let ?d2 = "console_log (LogUpdated key (getNewMeasure i)) ?d1"
      have "evolves d ?d1"
        using Some False by (auto intro!: evolves_set_measure)
      moreover have "evolves ?d1 ?d2" by (simp add: evolves_console_log)
      ultimately have "evolves d ?d2" by (rule evolves_trans)
      from evolves_trans [OF this Cons.IH]
      show ?thesis using Some False by simp
    qed
  qed
qed

lemma evolves_checkCommands:
  "evolves d (checkCommands params keys d)"
proof (induction keys arbitrary: d)
  case Nil
  show ?case by (simp add: evolves_refl)
next
  case (Cons key keys)
  have e1: "evolves d (outcome_driver (checkCommand params key d))"
    by (rule evolves_checkCommand)
  show ?case
  proof (cases "checkCommand params key d")
    case (Threw e d1)
    with e1 have "evolves d d1" by simp
    from evolves_trans [OF this Cons.IH] show ?thesis using Threw by simp
  next
    case (Returned d1)
    with e1 have d1: "evolves d d1" by simp
    show ?thesis
    proof (cases "measures_byId (state d1) key")
      case None
      from evolves_trans [OF d1 Cons.IH] show ?thesis using Returned None by simp
    next
      case (Some m)
      have "evolves d1 (set_measure key (m\<lparr>previousValue := Some (val m)\<rparr>) d1)"
        using Some by (auto intro!: evolves_set_measure)
      from evolves_trans [OF evolves_trans [OF d1 this] Cons.IH]
      show ?thesis using Returned Some by simp
    qed
  qed
qed

lemma evolves_tick: "evolves d (tick params getNewMeasure d)"
proof -
  have "evolves d (console_log LogUpdatingMeasures d)"
    by (simp add: evolves_console_log)
  from evolves_trans [OF evolves_trans [OF this evolves_updateMeasures] evolves_checkCommands]
  show ?thesis by (simp add: tick_def Let_def)
qed

lemma evolves_connect: "evolves d (connect params randomNumber d)"
  by (simp add: evolves_def connect_def createConnection_def startUpdateCycle_def
      console_log_def Let_def)

lemma evolves_disconnect: "evolves d (disconnect d)"
  by (cases "updateCycleId d") (simp_all add: evolves_def disconnect_def clearInterval_def)

lemma evolves_perform: "evolves d (perform params op d)"
  by (cases op)
     (simp_all add: evolves_connect evolves_disconnect evolves_command evolves_checkCommand
        evolves_retryCommand evolves_tick)

lemma evolves_run: "evolves d (run params ops d)"
proof (induction ops arbitrary: d)
  case Nil
  show ?case by (simp add: evolves_refl)
next
  case (Cons op ops)
  from evolves_trans [OF evolves_perform Cons.IH] show ?case by simp
qed


text \<open>
  Claim C8. No operation of the driver (\<^verbatim>\<open>connect\<close>, \<^verbatim>\<open>disconnect\<close>, \<^verbatim>\<open>command\<close>,
  \<^verbatim>\<open>checkCommand\<close>, \<^verbatim>\<open>retryCommand\<close>, a sampling tick) and no sequence of operations
  lowers the \<open>retriesCounter\<close> of a command or removes the command: the counter after is
  at least the counter before.
\<close>

theorem retriesCounter_never_decreases:
  assumes "commands_byId (state d) commandKey = Some c"
  shows "(\<exists>c'. commands_byId (state (perform params op d)) commandKey = Some c' \<and>
               retriesCounter c \<le> retriesCounter c') \<and>
         (\<exists>c'. commands_byId (state (run params ops d)) commandKey = Some c' \<and>
               retriesCounter c \<le> retriesCounter c')"
  using assms evolves_perform [of d params op] evolves_run [of d params ops]
  unfolding evolves_def by blast

theorem retriesCounter_never_decreases_witness:
  "(\<exists>c'. commands_byId
           (state (perform defaultParams (RetryCommand ''burnerLevel'') scenario_issued))
           ''burnerLevel'' = Some c' \<and> 0 \<le> retriesCounter c') \<and>
   (\<exists>c'. commands_byId
           (state (run defaultParams
                     [Tick (\<lambda>i. 5), Disconnect, Connect (3/4),
                      Command ''burnerLevel'' ''set_to'' 0, Tick (\<lambda>i. 7)]
                     scenario_retried))
           ''burnerLevel'' = Some c' \<and> 1 \<le> retriesCounter c')"
  using
    retriesCounter_never_decreases
      [OF scenario_issued_command, of defaultParams "RetryCommand ''burnerLevel''" "[]"]
    retriesCounter_never_decreases
      [OF scenario_retried_command, of defaultParams Disconnect
         "[Tick (\<lambda>i. 5), Disconnect, Connect (3/4),
           Command ''burnerLevel'' ''set_to'' 0, Tick (\<lambda>i. 7)]"]
  by simp

text \<open>
  Claim C9. Whatever operations run on the initial driver, the measure \<open>burnerLevel\<close>
  keeps \<open>hasTarget = true\<close> and the value 0, and the console never shows the line that
  \<^verbatim>\<open>moveBurnerLevel\<close> prints when it starts: no operation calls it. More generally no
  sequence of operations changes the value of a measure that has a target (a tick draws
  new values for the other measures only), and the verb handlers change nothing of the
  measure \<open>burnerLevel\<close> but \<open>targetValue\<close>.
\<close>

theorem burnerLevel_value_frozen:
  "(\<exists>m. measures_byId (state (run params ops initialDriver)) ''burnerLevel'' = Some m \<and>
        hasTarget m \<and> val m = 0) \<and>
   (\<forall>e. LogChangingBurnerLevelTo e \<notin> set (console (run params ops initialDriver))) \<and>
   (\<forall>d key m. measures_byId (state d) key = Some m \<and> hasTarget m \<longrightarrow>
      (\<exists>m'. measures_byId (state (run params ops d)) key = Some m' \<and>
            hasTarget m' \<and> val m' = val m)) \<and>
   (\<forall>d m verb target. measures_byId (state d) ''burnerLevel'' = Some m \<longrightarrow>
      (\<exists>m'. measures_byId (state (outcome_driver (changeBurnerLevel verb target d)))
              ''burnerLevel'' = Some m' \<and>
            m' = m\<lparr>targetValue := targetValue m'\<rparr>))"
proof -
  have gen: "\<exists>m'. measures_byId (state (run params ops d)) key = Some m' \<and>
            hasTarget m' \<and> val m' = val m"
    if "measures_byId (state d) key = Some m" and "hasTarget m" for d key m
    using that evolves_run [of d params ops] unfolding evolves_def by fastforce
  from gen [OF initial_driver_measure]
  have init: "\<exists>m. measures_byId (state (run params ops initialDriver)) ''burnerLevel'' = Some m \<and>
        hasTarget m \<and> val m = 0"
    by simp
  have log: "\<forall>e. LogChangingBurnerLevelTo e \<notin> set (console (run params ops initialDriver))"
    using evolves_run [of initialDriver params ops]
    unfolding evolves_def by (auto simp: initialDriver_def)
  have handlers: "\<exists>m'. measures_byId (state (outcome_driver (changeBurnerLevel verb target d)))
              ''burnerLevel'' = Some m' \<and> m' = m\<lparr>targetValue := targetValue m'\<rparr>"
    if "measures_byId (state d) ''burnerLevel'' = Some m" for d m verb target
    using that
    by (simp add: changeBurnerLevel_def changeBurnerLevelTo_def console_log_def
        set_measure_def)
  from gen init log handlers show ?thesis by blast
qed


text \<open>
  A run with a connection, a command and two ticks: \<open>burnerLevel\<close> stays at 0 while
  \<open>beanTemperature\<close> takes the value drawn and the command is retried twice.
\<close>

theorem burnerLevel_value_frozen_witness:
  "(\<exists>m. measures_byId
          (state (run defaultParams
                    [Connect (3/4), Command ''burnerLevel'' ''increase'' 10,
                     Tick (\<lambda>i. 5), Tick (\<lambda>i. 7), Disconnect]
                    initialDriver))
          ''burnerLevel'' = Some m \<and> hasTarget m \<and> val m = 0) \<and>
   map_option val
     (measures_byId
        (state (run defaultParams
                  [Connect (3/4), Command ''burnerLevel'' ''increase'' 10,
                   Tick (\<lambda>i. 5), Tick (\<lambda>i. 7), Disconnect]
                  initialDriver))
        ''beanTemperature'') = Some 7 \<and>
   map_option retriesCounter
     (commands_byId
        (state (run defaultParams
                  [Connect (3/4), Command ''burnerLevel'' ''increase'' 10,
                   Tick (\<lambda>i. 5), Tick (\<lambda>i. 7), Disconnect]
                  initialDriver))
        ''burnerLevel'') = Some 2"
proof -
  have run: "map_option val
     (measures_byId
        (state (run defaultParams
                  [Connect (3/4), Command ''burnerLevel'' ''increase'' 10,
                   Tick (\<lambda>i. 5), Tick (\<lambda>i. 7), Disconnect]
                  initialDriver))
        ''beanTemperature'') = Some 7 \<and>
   map_option retriesCounter
     (commands_byId
        (state (run defaultParams
                  [Connect (3/4), Command ''burnerLevel'' ''increase'' 10,
                   Tick (\<lambda>i. 5), Tick (\<lambda>i. 7), Disconnect]
                  initialDriver))
        ''burnerLevel'') = Some 2"
    by (simp add: driver_defs connect_def createConnection_def startUpdateCycle_def
        disconnect_def clearInterval_def tick_def checkCommand_def shouldRetryCommand_def
        defaultParams_def Let_def double_values)
  from burnerLevel_value_frozen
    [of defaultParams
       "[Connect (3/4), Command ''burnerLevel'' ''increase'' 10,
         Tick (\<lambda>i. 5), Tick (\<lambda>i. 7), Disconnect]"]
  have "\<exists>m. measures_byId
          (state (run defaultParams
                    [Connect (3/4), Command ''burnerLevel'' ''increase'' 10,
                     Tick (\<lambda>i. 5), Tick (\<lambda>i. 7), Disconnect]
                    initialDriver))
          ''burnerLevel'' = Some m \<and> hasTarget m \<and> val m = 0"
    by blast
  with run show ?thesis by blast
qed


subsection \<open>The scenario \<open>increase by 10\<close>\<close>




end
